theory Spec2Isabelle
  imports Complex_Main
begin

section \<open>JavaScript values used by the game engine\<close>

text \<open>
  The engine stores numbers (wealth, experience, cooldown, ...) as JavaScript numbers.
  They are modelled as exact rationals together with \<open>NaN\<close>, which is what
  \<open>parseInt\<close> of a non-numeric token and arithmetic on \<open>undefined\<close> produce.
  Rounding of IEEE doubles, infinities and the sign of zero are outside the model; on
  the integers and halves the engine computes with, doubles are exact.
\<close>

datatype jsnum = NaN | Num rat

fun jadd :: "jsnum \<Rightarrow> jsnum \<Rightarrow> jsnum" where
  "jadd (Num a) (Num b) = Num (a + b)"
| "jadd _ _ = NaN"

fun jsub :: "jsnum \<Rightarrow> jsnum \<Rightarrow> jsnum" where
  "jsub (Num a) (Num b) = Num (a - b)"
| "jsub _ _ = NaN"

fun jmul :: "jsnum \<Rightarrow> jsnum \<Rightarrow> jsnum" where
  "jmul (Num a) (Num b) = Num (a * b)"
| "jmul _ _ = NaN"

text \<open>\<open>a < b\<close>: every comparison with \<open>NaN\<close> is false.\<close>

fun jlt :: "jsnum \<Rightarrow> jsnum \<Rightarrow> bool" where
  "jlt (Num a) (Num b) = (a < b)"
| "jlt _ _ = False"

text \<open>Truthiness of a number: \<open>0\<close> and \<open>NaN\<close> are falsy.\<close>

fun truthy :: "jsnum \<Rightarrow> bool" where
  "truthy NaN = False"
| "truthy (Num a) = (a \<noteq> 0)"

text \<open>
  A property that may be missing reads as \<open>undefined\<close>: \<open>None\<close>.
  \<open>truthy_opt\<close> is the truthiness of such a read, \<open>or_else v d\<close> is \<open>v || d\<close>,
  and \<open>to_number\<close> is the numeric coercion (\<open>undefined\<close> becomes \<open>NaN\<close>).
\<close>

fun truthy_opt :: "jsnum option \<Rightarrow> bool" where
  "truthy_opt None = False"
| "truthy_opt (Some n) = truthy n"

definition or_else :: "jsnum option \<Rightarrow> jsnum \<Rightarrow> jsnum" where
  "or_else v d = (case v of None \<Rightarrow> d | Some n \<Rightarrow> if truthy n then n else d)"

fun to_number :: "jsnum option \<Rightarrow> jsnum" where
  "to_number None = NaN"
| "to_number (Some n) = n"

subsection \<open>Strings: \<open>split\<close>, \<open>join\<close>, \<open>parseInt\<close>\<close>

text \<open>
  \<open>s.split(c)\<close> for a one-character separator: the result is never empty, and two
  adjacent separators give an empty piece.
\<close>

fun split_on :: "char \<Rightarrow> string \<Rightarrow> string list" where
  "split_on c [] = [[]]"
| "split_on c (x # xs) =
     (if x = c then [] # split_on c xs
      else (case split_on c xs of
              [] \<Rightarrow> [[x]]
            | w # ws \<Rightarrow> (x # w) # ws))"

text \<open>\<open>parts.join(sep)\<close>.\<close>

fun join :: "string \<Rightarrow> string list \<Rightarrow> string" where
  "join sep [] = []"
| "join sep [x] = x"
| "join sep (x # y # ys) = x @ sep @ join sep (y # ys)"

text \<open>\<open>xs[i]\<close> of an array: \<open>undefined\<close> past its end.\<close>

fun nth_opt :: "'a list \<Rightarrow> nat \<Rightarrow> 'a option" where
  "nth_opt [] n = None"
| "nth_opt (x # xs) 0 = Some x"
| "nth_opt (x # xs) (Suc n) = nth_opt xs n"

text \<open>
  \<open>parseInt(string)\<close> with no radix: leading white space is skipped, then an optional
  sign, then an optional \<open>0x\<close>/\<open>0X\<close> prefix that selects radix 16; the longest prefix
  of digits of the radix is the value, and no digit at all gives \<open>NaN\<close>. Two limits of
  the model: only the six ASCII white space characters are skipped (JavaScript also skips
  the other Unicode white space, such as U+00A0), and the value is the exact integer
  (JavaScript rounds it to a double, which differs above \<open>2^53\<close>).
\<close>

definition is_space :: "char \<Rightarrow> bool" where
  "is_space c = (c \<in> set [CHR '' '', CHR 0x09, CHR 0x0A, CHR 0x0B, CHR 0x0C, CHR 0x0D])"

definition digit_value :: "char \<Rightarrow> nat option" where
  "digit_value = map_of
     [(CHR ''0'', 0), (CHR ''1'', 1), (CHR ''2'', 2), (CHR ''3'', 3), (CHR ''4'', 4),
      (CHR ''5'', 5), (CHR ''6'', 6), (CHR ''7'', 7), (CHR ''8'', 8), (CHR ''9'', 9),
      (CHR ''a'', 10), (CHR ''b'', 11), (CHR ''c'', 12), (CHR ''d'', 13), (CHR ''e'', 14),
      (CHR ''f'', 15), (CHR ''A'', 10), (CHR ''B'', 11), (CHR ''C'', 12), (CHR ''D'', 13),
      (CHR ''E'', 14), (CHR ''F'', 15)]"

fun leading_digits :: "nat \<Rightarrow> string \<Rightarrow> nat list" where
  "leading_digits radix [] = []"
| "leading_digits radix (c # cs) =
     (case digit_value c of
        None \<Rightarrow> []
      | Some v \<Rightarrow> if v < radix then v # leading_digits radix cs else [])"

definition digits_value :: "nat \<Rightarrow> nat list \<Rightarrow> nat" where
  "digits_value radix ds = foldl (\<lambda>acc v. acc * radix + v) 0 ds"

fun take_sign :: "string \<Rightarrow> int \<times> string" where
  "take_sign (c # cs) =
     (if c = CHR ''-'' then (- 1, cs) else if c = CHR ''+'' then (1, cs) else (1, c # cs))"
| "take_sign [] = (1, [])"

fun take_radix :: "string \<Rightarrow> nat \<times> string" where
  "take_radix (c # x # cs) =
     (if c = CHR ''0'' \<and> (x = CHR ''x'' \<or> x = CHR ''X'') then (16, cs) else (10, c # x # cs))"
| "take_radix cs = (10, cs)"

definition parseInt :: "string \<Rightarrow> jsnum" where
  "parseInt str =
     (let (sign, s1) = take_sign (dropWhile is_space str);
          (radix, s2) = take_radix s1;
          ds = leading_digits radix s2
      in if ds = [] then NaN else Num (of_int (sign * int (digits_value radix ds))))"

text \<open>
  \<open>parseInt(number)\<close> converts the number to a string first and so drops the fraction:
  truncation towards zero. This is what JavaScript computes for zero and for magnitudes
  printed without an exponent, at least \<open>10^-6\<close> and below \<open>10^21\<close>; outside that
  range JavaScript parses the leading digits of the exponent form and the model does not
  follow it. \<open>parseInt(NaN)\<close> is \<open>NaN\<close>.
\<close>

definition trunc :: "rat \<Rightarrow> int" where
  "trunc r = (if 0 \<le> r then \<lfloor>r\<rfloor> else \<lceil>r\<rceil>)"

fun parseInt_num :: "jsnum \<Rightarrow> jsnum" where
  "parseInt_num NaN = NaN"
| "parseInt_num (Num r) = Num (of_int (trunc r))"

section \<open>Data model\<close>

record item =
  item_name :: string
  attack :: int
  durability :: int

text \<open>
  A player object. Every property may be absent (\<open>None\<close>, read as \<open>undefined\<close>): the
  same shape serves for what is stored under \<open>/players/<id>\<close>, for the partial
  data an \<open>Entity\<close> exposes and for the hydrated profile. The source's \<open>id\<close>,
  \<open>type\<close> and \<open>alias\<close> are \<open>pid\<close>, \<open>ptype\<close> and \<open>palias\<close>. An equipment slot and
  the top-level
  \<open>weapon\<close> hold an item or \<open>null\<close> (\<open>Some None\<close>). Properties hold values of
  the kind the engine writes into them: numbers (\<open>NaN\<close> included), strings, item lists.
\<close>

record player =
  pid :: "string option"
  name :: "string option"
  ptype :: "string option"
  health :: "jsnum option"
  stamina :: "jsnum option"
  experience :: "jsnum option"
  equipment :: "(string \<rightharpoonup> item option) option"
  weapon :: "item option option"
  inventory :: "item list option"
  presence :: "string option"
  effects :: "(string \<rightharpoonup> string) option"
  wealth :: "jsnum option"
  cooldown :: "jsnum option"
  palias :: "string option"

definition blank :: player where
  "blank = \<lparr>pid = None, name = None, ptype = None, health = None, stamina = None,
     experience = None, equipment = None, weapon = None, inventory = None,
     presence = None, effects = None, wealth = None, cooldown = None, palias = None\<rparr>"

text \<open>\<open>Object.assign({}, base, over)\<close>: a property of \<open>over\<close> wins where it is present.\<close>

definition over :: "'a option \<Rightarrow> 'a option \<Rightarrow> 'a option" where
  "over b v = (case v of None \<Rightarrow> b | Some x \<Rightarrow> Some x)"

definition assign :: "player \<Rightarrow> player \<Rightarrow> player" where
  "assign b p =
     \<lparr>pid = over (pid b) (pid p), name = over (name b) (name p),
      ptype = over (ptype b) (ptype p), health = over (health b) (health p),
      stamina = over (stamina b) (stamina p),
      experience = over (experience b) (experience p),
      equipment = over (equipment b) (equipment p), weapon = over (weapon b) (weapon p),
      inventory = over (inventory b) (inventory p), presence = over (presence b) (presence p),
      effects = over (effects b) (effects p), wealth = over (wealth b) (wealth p),
      cooldown = over (cooldown b) (cooldown p), palias = over (palias b) (palias p)\<rparr>"

subsection \<open>Configuration\<close>

text \<open>The module-level constants.\<close>

definition PER_TICK_CAPITAL :: jsnum where "PER_TICK_CAPITAL = Num 10"
definition PER_TICK_EXPERIENCE :: jsnum where "PER_TICK_EXPERIENCE = Num 10"
definition TICK_INTERVAL :: nat where "TICK_INTERVAL = 600000"
definition ENCOUNTER_CHANCE :: rat where "ENCOUNTER_CHANCE = 5 / 100"

record config =
  cfg_name :: string
  cfg_alias :: string
  cfg_channels :: "string list"
  cfg_interval :: nat
  cfg_luck :: rat
  cfg_PER_TICK_CAPITAL :: jsnum
  cfg_PER_TICK_EXPERIENCE :: jsnum

text \<open>What the caller of the constructor may pass: any subset of the settings.\<close>

record overrides =
  o_name :: "string option"
  o_alias :: "string option"
  o_channels :: "string list option"
  o_interval :: "nat option"
  o_luck :: "rat option"
  o_PER_TICK_CAPITAL :: "jsnum option"
  o_PER_TICK_EXPERIENCE :: "jsnum option"

definition or_default :: "'a option \<Rightarrow> 'a \<Rightarrow> 'a" where
  "or_default v d = (case v of None \<Rightarrow> d | Some x \<Rightarrow> x)"

text \<open>The constructor's \<open>Object.assign(defaults, config)\<close>.\<close>

definition constructor :: "overrides \<Rightarrow> config" where
  "constructor c =
     \<lparr>cfg_name = or_default (o_name c) ''idlerpg'',
      cfg_alias = or_default (o_alias c) ''@idlerpg:verse.im'',
      cfg_channels = or_default (o_channels c) [''idlerpg''],
      cfg_interval = or_default (o_interval c) TICK_INTERVAL,
      cfg_luck = or_default (o_luck c) ENCOUNTER_CHANCE,
      cfg_PER_TICK_CAPITAL = or_default (o_PER_TICK_CAPITAL c) PER_TICK_CAPITAL,
      cfg_PER_TICK_EXPERIENCE = or_default (o_PER_TICK_EXPERIENCE c) PER_TICK_EXPERIENCE\<rparr>"

subsection \<open>Collaborators\<close>

text \<open>
  The modules \<open>./entity\<close> and \<open>./encounter\<close> and the chat services are used but not
  defined by the engine; they are parameters of the model.
  \<^item> \<open>Entity d\<close> gives the own properties of \<open>new Entity(d)\<close>, \<open>level\<close> its derived
    \<open>level\<close>.
  \<^item> \<open>Encounter p\<close> is the encounter generated for a player: its \<open>type\<close>, the
    \<open>entity\<close> to merge, and the \<open>state\<close> the narrative reads.
  \<^item> A service has an agent identity and answers \<open>_getMembers(channel)\<close> and
    \<open>_getPresence(member)\<close>; \<open>None\<close> is a rejected call.
\<close>

record encounter =
  etype :: string
  entity :: player
  monster :: string
  loot :: jsnum
  found :: string
  equipped :: bool
  skipped :: bool

record deps =
  Entity :: "player \<Rightarrow> player"
  level :: "player \<Rightarrow> jsnum"
  Encounter :: "player \<Rightarrow> encounter"

record service =
  agent_id :: string
  getMembers :: "string \<Rightarrow> string list option"
  getPresence :: "string \<Rightarrow> string option"

type_synonym services = "(string \<times> service) list"

subsection \<open>Game state and signals\<close>

text \<open>
  Announcements and replies are kept as structured values rather than as the English
  sentences the source formats them into.
\<close>

datatype notice =
    LevelUp "string option" jsnum
  | Disrupted "string option"
  | Blessed "string option"
  | MonsterSlain "string option" string jsnum
  | ItemEquipped "string option" string
  | ItemDiscarded "string option" string
  | ItemKept "string option" string nat

datatype event =
    Message notice string
  | Tick
  | Whisper "string option" "string option" "string option" jsnum

datatype error = TypeError | PatchError

text \<open>
  The engine's state: the \<open>/players\<close> subtree of the state tree keyed by player id, the
  monitored channels, the number of commits made, the signals emitted so far, the
  announcements made so far, and the source of \<open>Math.random()\<close> samples (\<open>rng\<close>, read
  at position \<open>drawn\<close>).
\<close>

record state =
  players :: "string \<rightharpoonup> player"
  channels :: "string list"
  commits :: nat
  emitted :: "event list"
  announced :: "notice list"
  rng :: "nat \<Rightarrow> rat"
  drawn :: nat

definition commit :: "state \<Rightarrow> state" where
  "commit s = s\<lparr>commits := commits s + 1\<rparr>"

definition emit :: "event \<Rightarrow> state \<Rightarrow> state" where
  "emit e s = s\<lparr>emitted := emitted s @ [e]\<rparr>"

text \<open>
  \<open>announce(message)\<close>: one \<open>message\<close> signal per service and monitored channel, the
  target being \<open><service>/channels/<channel>\<close>.
\<close>

definition announce :: "services \<Rightarrow> notice \<Rightarrow> state \<Rightarrow> state" where
  "announce svcs n s =
     s\<lparr>announced := announced s @ [n],
       emitted := emitted s @
         concat (map (\<lambda>(sname, svc).
           map (\<lambda>ch. Message n (join ''/'' [sname, ''channels'', ch])) (channels s)) svcs)\<rparr>"

section \<open>State store\<close>

text \<open>
  The patches the engine builds address \<open>/players/<id>\<close> (a whole player) and
  \<open>/players/<id>/wealth\<close> or \<open>/players/<id>/cooldown\<close> (one property); the id is
  escaped with \<open>pointer.escape\<close> when the path is built and unescaped again when the patch
  library splits the path, so an operation is keyed by the id itself.
  \<open>replace\<close> stores the value under the last path segment of the object the earlier
  segments lead to, and throws when they lead to nothing: replacing a whole player always
  succeeds, replacing a property needs the player to be stored.
\<close>

datatype field = Wealth | Cooldown

datatype op = Replace_player string player | Replace_field string field jsnum

fun set_field :: "field \<Rightarrow> jsnum \<Rightarrow> player \<Rightarrow> player" where
  "set_field Wealth v p = p\<lparr>wealth := Some v\<rparr>"
| "set_field Cooldown v p = p\<lparr>cooldown := Some v\<rparr>"

fun applyOperation :: "(string \<rightharpoonup> player) \<Rightarrow> op \<Rightarrow> error + (string \<rightharpoonup> player)" where
  "applyOperation ps (Replace_player k v) = Inr (ps(k \<mapsto> v))"
| "applyOperation ps (Replace_field k f v) =
     (case ps k of
        None \<Rightarrow> Inl PatchError
      | Some p \<Rightarrow> Inr (ps(k \<mapsto> set_field f v p)))"

text \<open>
  \<open>applyPatch\<close> applies the operations in order to the tree itself: when one throws,
  the earlier ones stay applied. The result is the tree afterwards and the error, if any.
\<close>

fun applyPatch :: "(string \<rightharpoonup> player) \<Rightarrow> op list \<Rightarrow> error option \<times> (string \<rightharpoonup> player)" where
  "applyPatch ps [] = (None, ps)"
| "applyPatch ps (x # xs) =
     (case applyOperation ps x of
        Inl e \<Rightarrow> (Some e, ps)
      | Inr ps' \<Rightarrow> applyPatch ps' xs)"

text \<open>
  \<open>_GET('/players/<id>')\<close>: the stored value, or nothing. Reads see the tree the
  patches are applied to (every patch the engine applies is followed by a commit), and
  they hand out a copy, not the stored object.
\<close>

definition GET :: "state \<Rightarrow> string \<Rightarrow> player option" where
  "GET s k = players s k"

section \<open>Player registry\<close>

text \<open>
  \<open>_getProfile(id)\<close>: a one-segment id becomes \<open>local/users/<id>\<close>; the stored value is
  laid over a fresh \<open>Entity\<close> and the profile is built from the result with its defaults.
  A failing read is caught and counts as no prior data. The profile has no \<open>cooldown\<close>,
  \<open>alias\<close> or top-level \<open>weapon\<close> property.
\<close>

definition canonical :: "string \<Rightarrow> string" where
  "canonical i =
     (let parts = split_on (CHR ''/'') i;
          parts = (if length parts = 1 then [''local'', ''users'', i] else parts)
      in join ''/'' parts)"

definition hydrate :: "player \<Rightarrow> player" where
  "hydrate d =
     \<lparr>pid = pid d,
      name = name d,
      ptype = Some ''Player'',
      health = Some (or_else (health d) (Num 100)),
      stamina = Some (or_else (stamina d) (Num 100)),
      experience = Some (or_else (experience d) (Num 0)),
      equipment = Some ((or_default (equipment d) Map.empty)
                    (''weapon'' \<mapsto> (case weapon d of Some (Some w) \<Rightarrow> Some w | _ \<Rightarrow> None))),
      weapon = None,
      inventory = Some (or_default (inventory d) []),
      presence = Some (case presence d of
                         None \<Rightarrow> ''offline''
                       | Some v \<Rightarrow> if v = [] then ''offline'' else v),
      effects = Some (or_default (effects d) Map.empty),
      wealth = Some (or_else (wealth d) (Num 0)),
      cooldown = None,
      palias = None\<rparr>"

definition getProfile :: "deps \<Rightarrow> state \<Rightarrow> string \<Rightarrow> player" where
  "getProfile c s i =
     (let path = canonical i;
          prior = GET s path;
          base = Entity c (blank\<lparr>pid := Some path\<rparr>);
          d = (case prior of None \<Rightarrow> base | Some p \<Rightarrow> assign base p)
      in hydrate d)"

text \<open>
  \<open>_registerPlayer(player)\<close>: without an id nothing happens and nothing is returned.
  Otherwise the key is \<open><first segment>/users/<third segment>\<close> of the id (a missing
  third segment joins as the empty string; for a one-segment id the source puts the
  player object itself in third place, which joins as \<open>[object Object]\<close>), a copy of the
  player is stored there, the state is committed and the stored value is read back.
\<close>

definition register_key :: "string \<Rightarrow> string" where
  "register_key i =
     (let parts = split_on (CHR ''/'') i;
          third = (if length parts = 1 then ''[object Object]''
                   else or_default (nth_opt parts 2) []);
          first = (if length parts = 1 then ''local'' else or_default (nth_opt parts 0) [])
      in join ''/'' [first, ''users'', third])"

definition registerPlayer :: "state \<Rightarrow> player \<Rightarrow> player option \<times> state" where
  "registerPlayer s p =
     (case pid p of
        None \<Rightarrow> (None, s)
      | Some i \<Rightarrow>
          if i = [] then (None, s)
          else
            let k = register_key i;
                (err, ps) = applyPatch (players s) [Replace_player k p];
                s' = commit (s\<lparr>players := ps\<rparr>)
            in (GET s' k, s'))"

section \<open>Progression: encounters, rewards, penalties\<close>

text \<open>\<open>Math.random()\<close>: the next sample of the state's source.\<close>

definition random :: "state \<Rightarrow> rat \<times> state" where
  "random s = (rng s (drawn s), s\<lparr>drawn := drawn s + 1\<rparr>)"

text \<open>
  \<open>_rollForEncounter(instance)\<close>: with a sample below \<open>config.luck\<close> an encounter is
  generated for a copy of the player, its entity is laid over the copy, and the encounter
  is announced according to its type. The last narrative reads \<open>player.inventory.length\<close>
  and throws when the player has no inventory. The result is the merged player, or
  \<open>null\<close> when there was no encounter.
\<close>

definition rollForEncounter ::
  "deps \<Rightarrow> config \<Rightarrow> services \<Rightarrow> state \<Rightarrow> player \<Rightarrow> (error + player option) \<times> state" where
  "rollForEncounter c cfg svcs s0 instance =
     (let (sample, s) = random s0 in
      if sample < cfg_luck cfg then
        let enc = Encounter c instance;
            result = assign instance (entity enc)
        in if etype enc = ''blessing'' then
             (Inr (Some result), announce svcs (Blessed (name instance)) s)
           else if etype enc = ''monster'' then
             (Inr (Some result),
              announce svcs (MonsterSlain (name instance) (monster enc) (loot enc)) s)
           else if etype enc = ''item'' then
             (if equipped enc then
                (Inr (Some result), announce svcs (ItemEquipped (name instance) (found enc)) s)
              else if skipped enc then
                (Inr (Some result), announce svcs (ItemDiscarded (name instance) (found enc)) s)
              else
                (case inventory instance of
                   None \<Rightarrow> (Inl TypeError, s)
                 | Some held \<Rightarrow>
                     (Inr (Some result),
                      announce svcs (ItemKept (name instance) (found enc) (length held)) s)))
           else (Inr (Some result), s)
      else (Inr None, s))"

text \<open>
  \<open>reward(player)\<close>: the encounter's result, if any, is laid over the player; the
  module-level constants are added to wealth and experience (a falsy value counting as
  \<open>0\<close>); a risen level is announced; the whole player replaces the stored one and the
  state is committed. Building the path throws when the player has no id. The result is
  the player as the caller sees it afterwards.
\<close>

definition reward ::
  "deps \<Rightarrow> config \<Rightarrow> services \<Rightarrow> state \<Rightarrow> player \<Rightarrow> (error + player) \<times> state" where
  "reward c cfg svcs s0 player0 =
     (let prior = level c player0 in
      case rollForEncounter c cfg svcs s0 player0 of
        (Inl e, s) \<Rightarrow> (Inl e, s)
      | (Inr instance, s) \<Rightarrow>
          let p1 = (case instance of None \<Rightarrow> player0 | Some i \<Rightarrow> assign player0 i);
              p2 = p1\<lparr>wealth := Some (jadd (or_else (wealth p1) (Num 0)) PER_TICK_CAPITAL)\<rparr>;
              p3 = p2\<lparr>experience :=
                        Some (jadd (or_else (experience p2) (Num 0)) PER_TICK_EXPERIENCE)\<rparr>;
              sample = level c p3;
              s1 = (if truthy sample \<and> jlt prior sample
                    then announce svcs (LevelUp (name p3) sample) s else s)
          in (case pid p3 of
                None \<Rightarrow> (Inl TypeError, s1)
              | Some target \<Rightarrow>
                  (case applyPatch (players s1) [Replace_player target p3] of
                     (Some e, ps) \<Rightarrow> (Inl e, s1\<lparr>players := ps\<rparr>)
                   | (None, ps) \<Rightarrow> (Inr p3, commit (s1\<lparr>players := ps\<rparr>)))))"

text \<open>
  \<open>penalize(player)\<close>: the announcement is decided on the cooldown the player object
  carries on entry; cooldown \<open>1000\<close> and half the wealth are written by one patch of two
  operations, which is not guarded: a throw leaves the method before the commit and the
  announcement.
\<close>

definition penalize :: "services \<Rightarrow> state \<Rightarrow> player \<Rightarrow> (error + unit) \<times> state" where
  "penalize svcs s player0 =
     (case pid player0 of
        None \<Rightarrow> (Inl TypeError, s)
      | Some target \<Rightarrow>
          let notify = (\<not> truthy_opt (cooldown player0) \<or> jlt (to_number (cooldown player0)) (Num 100));
              p1 = player0\<lparr>cooldown := Some (Num 1000)\<rparr>;
              p2 = p1\<lparr>wealth := Some (jmul (to_number (wealth p1)) (Num (1 / 2)))\<rparr>
          in (case applyPatch (players s)
                     [Replace_field target Cooldown (to_number (cooldown p2)),
                      Replace_field target Wealth (to_number (wealth p2))] of
                (Some e, ps) \<Rightarrow> (Inl e, s\<lparr>players := ps\<rparr>)
              | (None, ps) \<Rightarrow>
                  (let s1 = commit (s\<lparr>players := ps\<rparr>)
                   in (Inr (), if notify then announce svcs (Disrupted (name p2)) s1 else s1))))"

text \<open>
  \<open>_handleMessage(message)\<close>: a message in a monitored channel gets its author
  penalized, on the author's freshly read profile.
\<close>

definition handleMessage ::
  "deps \<Rightarrow> services \<Rightarrow> state \<Rightarrow> string \<Rightarrow> string \<Rightarrow> (error + unit) \<times> state" where
  "handleMessage c svcs s msg_actor msg_target =
     (if msg_target \<notin> set (channels s) then (Inr (), s)
      else penalize svcs s (getProfile c s msg_actor))"

text \<open>
  \<open>_computeRound(player)\<close>: the profile is read again by the player's id (a failing read
  is caught and ends the round with \<open>false\<close>, here \<open>None\<close>); a truthy cooldown on the
  profile is lowered by \<open>config.PER_TICK_CAPITAL\<close>; an online profile is rewarded.
\<close>

definition computeRound ::
  "deps \<Rightarrow> config \<Rightarrow> services \<Rightarrow> state \<Rightarrow> player \<Rightarrow> (error + player option) \<times> state" where
  "computeRound c cfg svcs s player0 =
     (case pid player0 of
        None \<Rightarrow> (Inr None, s)
      | Some i \<Rightarrow>
          let profile = getProfile c s i;
              profile = (if truthy_opt (cooldown profile)
                         then profile\<lparr>cooldown :=
                                Some (jsub (to_number (cooldown profile)) (cfg_PER_TICK_CAPITAL cfg))\<rparr>
                         else profile)
          in if presence profile = Some ''online'' then
               (case reward c cfg svcs s profile of
                  (Inl e, s') \<Rightarrow> (Inl e, s')
                | (Inr p, s') \<Rightarrow> (Inr (Some p), s'))
             else (Inr (Some profile), s))"

section \<open>Enumerating players\<close>

text \<open>
  \<open>_getPlayers()\<close> walks every service, every monitored channel and every member. At a
  member equal to the service's agent id it returns from the whole function with no value
  (\<open>None\<close>). Every other member's profile is read and registered; a player that
  registration returns gets the member's presence and joins the list. Failing calls to
  the service are caught: no members, or an undefined presence.
\<close>

fun scan_members ::
  "deps \<Rightarrow> string \<Rightarrow> service \<Rightarrow> string list \<Rightarrow> state \<Rightarrow> player list \<Rightarrow> player list option \<times> state" where
  "scan_members c sname svc [] s acc = (Some acc, s)"
| "scan_members c sname svc (m # ms) s acc =
     (if m = agent_id svc then (None, s)
      else
        let path = join ''/'' [sname, ''users'', m];
            profile = getProfile c s path
        in case registerPlayer s profile of
             (None, s') \<Rightarrow> scan_members c sname svc ms s' acc
           | (Some pl, s') \<Rightarrow>
               scan_members c sname svc ms s' (acc @ [pl\<lparr>presence := getPresence svc m\<rparr>]))"

fun scan_channels ::
  "deps \<Rightarrow> string \<Rightarrow> service \<Rightarrow> string list \<Rightarrow> state \<Rightarrow> player list \<Rightarrow> player list option \<times> state" where
  "scan_channels c sname svc [] s acc = (Some acc, s)"
| "scan_channels c sname svc (ch # chs) s acc =
     (case scan_members c sname svc (or_default (getMembers svc ch) []) s acc of
        (None, s') \<Rightarrow> (None, s')
      | (Some acc', s') \<Rightarrow> scan_channels c sname svc chs s' acc')"

fun scan_services ::
  "deps \<Rightarrow> services \<Rightarrow> state \<Rightarrow> player list \<Rightarrow> player list option \<times> state" where
  "scan_services c [] s acc = (Some acc, s)"
| "scan_services c ((sname, svc) # rest) s acc =
     (case scan_channels c sname svc (channels s) s acc of
        (None, s') \<Rightarrow> (None, s')
      | (Some acc', s') \<Rightarrow> scan_services c rest s' acc')"

definition getPlayers :: "deps \<Rightarrow> services \<Rightarrow> state \<Rightarrow> player list option \<times> state" where
  "getPlayers c svcs s = scan_services c svcs s []"

text \<open>
  \<open>_getActivePlayers()\<close>: the online players whose alias is not the configured one.
  Filtering the missing list throws.
\<close>

definition getActivePlayers ::
  "deps \<Rightarrow> config \<Rightarrow> services \<Rightarrow> state \<Rightarrow> (error + player list) \<times> state" where
  "getActivePlayers c cfg svcs s =
     (case getPlayers c svcs s of
        (None, s') \<Rightarrow> (Inl TypeError, s')
      | (Some ps, s') \<Rightarrow>
          (Inr (filter (\<lambda>x. palias x \<noteq> Some (cfg_alias cfg))
                  (filter (\<lambda>x. presence x = Some ''online'') ps)), s'))"

text \<open>
  \<open>_handleOnlineRequest()\<close> and \<open>_handleMemberlistRequest()\<close> answer with the names of
  the active players and of all players; mapping over a missing list throws.
\<close>

definition handleOnlineRequest ::
  "deps \<Rightarrow> config \<Rightarrow> services \<Rightarrow> state \<Rightarrow> (error + string option list) \<times> state" where
  "handleOnlineRequest c cfg svcs s =
     (case getActivePlayers c cfg svcs s of
        (Inl e, s') \<Rightarrow> (Inl e, s')
      | (Inr ps, s') \<Rightarrow> (Inr (map name ps), s'))"

definition handleMemberlistRequest ::
  "deps \<Rightarrow> services \<Rightarrow> state \<Rightarrow> (error + string option list) \<times> state" where
  "handleMemberlistRequest c svcs s =
     (case getPlayers c svcs s of
        (None, s') \<Rightarrow> (Inl TypeError, s')
      | (Some ps, s') \<Rightarrow> (Inr (map name ps), s'))"

section \<open>The tick\<close>

text \<open>
  \<open>tick()\<close>: a failure to get the active players is caught and leaves no players to walk;
  each player's round is awaited in turn and a throwing round ends the tick there; after
  the last round the \<open>tick\<close> signal is emitted.
\<close>

fun rounds ::
  "deps \<Rightarrow> config \<Rightarrow> services \<Rightarrow> player list \<Rightarrow> state \<Rightarrow> (error + unit) \<times> state" where
  "rounds c cfg svcs [] s = (Inr (), s)"
| "rounds c cfg svcs (p # ps) s =
     (case computeRound c cfg svcs s p of
        (Inl e, s') \<Rightarrow> (Inl e, s')
      | (Inr r, s') \<Rightarrow> rounds c cfg svcs ps s')"

definition tick :: "deps \<Rightarrow> config \<Rightarrow> services \<Rightarrow> state \<Rightarrow> (error + unit) \<times> state" where
  "tick c cfg svcs s =
     (let (r, s1) = getActivePlayers c cfg svcs s;
          ps = (case r of Inl e \<Rightarrow> [] | Inr l \<Rightarrow> l)
      in case rounds c cfg svcs ps s1 of
           (Inl e, s2) \<Rightarrow> (Inl e, s2)
         | (Inr u, s2) \<Rightarrow> (Inr (), emit Tick s2))"

section \<open>Transfers\<close>

text \<open>
  A property of the incoming message is either falsy and not a string (\<open>Falsy\<close>:
  \<open>undefined\<close>, \<open>null\<close>, \<open>0\<close>, ...), truthy and not a string (\<open>Other\<close>), or a string;
  the empty string is falsy. \<open>origin\<close> is the name of the message's origin, \<open>None\<close> when
  the message has no origin.
\<close>

datatype jsval = Falsy | Other | Str string

fun js_truthy :: "jsval \<Rightarrow> bool" where
  "js_truthy Falsy = False"
| "js_truthy Other = True"
| "js_truthy (Str v) = (v \<noteq> [])"

record message =
  actor :: jsval
  object :: jsval
  origin :: "string option"

datatype reply =
    NoObject
  | NoActor
  | ObjectNotString
  | ActorNotString
  | CommandFormat
  | ToYourself
  | NoWealth
  | NotThatAmount jsnum
  | CouldNotComplete
  | Transferred

text \<open>
  \<open>_handleTransferRequest(message)\<close>. The checks run in the source's order; the two
  profiles are read before the amount is parsed; both players are registered before the
  patch of two operations, whose failure is caught and reported; the commit and the
  whisper to the target follow a patch that went through. The source's test of
  \<open>!target\<close> is left out: a profile is an object and never falsy.
\<close>

definition handleTransferRequest ::
  "deps \<Rightarrow> state \<Rightarrow> message \<Rightarrow> (error + reply) \<times> state" where
  "handleTransferRequest c s msg =
     (if \<not> js_truthy (object msg) then (Inr NoObject, s)
      else if \<not> js_truthy (actor msg) then (Inr NoActor, s)
      else
        (case object msg of
           Str obj \<Rightarrow>
             (case actor msg of
                Str act \<Rightarrow>
                  (let parts = split_on (CHR '' '') obj in
                   if length parts \<noteq> 3 then (Inr CommandFormat, s)
                   else if nth_opt (split_on (CHR ''/'') act) 2 = Some (parts ! 2)
                   then (Inr ToYourself, s)
                   else
                     (let actor_p = getProfile c s act in
                      case origin msg of
                        None \<Rightarrow> (Inl TypeError, s)
                      | Some oname \<Rightarrow>
                          (let target_p = getProfile c s (oname @ ''/users/'' @ parts ! 2);
                               amount = parseInt (parts ! 1)
                           in case pid actor_p of
                                None \<Rightarrow> (Inl TypeError, s)
                              | Some actorID \<Rightarrow>
                                  (case pid target_p of
                                     None \<Rightarrow> (Inl TypeError, s)
                                   | Some targetID \<Rightarrow>
                                       (let left = parseInt_num
                                                     (jsub (to_number (wealth actor_p)) amount)
                                        in if \<not> truthy_opt (wealth actor_p) then (Inr NoWealth, s)
                                           else if jlt left (Num 0)
                                           then (Inr (NotThatAmount left), s)
                                           else
                                             (let (r1, s1) = registerPlayer s actor_p;
                                                  (r2, s2) = registerPlayer s1 target_p;
                                                  ops =
                                                    [Replace_field actorID Wealth
                                                       (jsub (parseInt_num (to_number (wealth actor_p)))
                                                             (parseInt_num amount)),
                                                     Replace_field targetID Wealth
                                                       (jadd (parseInt_num (to_number (wealth target_p)))
                                                             (parseInt_num amount))]
                                              in (case applyPatch (players s2) ops of
                                                    (Some e, ps) \<Rightarrow>
                                                      (Inr CouldNotComplete, s2\<lparr>players := ps\<rparr>)
                                                  | (None, ps) \<Rightarrow>
                                                      (Inr Transferred,
                                                       emit (Whisper (pid target_p) (name actor_p)
                                                               (pid actor_p) amount)
                                                         (commit (s2\<lparr>players := ps\<rparr>))))))))))
              | _ \<Rightarrow> (Inr ActorNotString, s))
         | _ \<Rightarrow> (Inr ObjectNotString, s)))"

section \<open>What a hydrated profile is\<close>

text \<open>
  A profile is fully defaulted when every property that has a default is present and
  is not a falsy value its default would have replaced: health and stamina are truthy,
  experience and wealth are numbers, presence is a non-empty string, inventory and effects
  exist, and the equipment has a \<open>weapon\<close> slot (an item or \<open>null\<close>).
\<close>

definition fully_defaulted :: "player \<Rightarrow> bool" where
  "fully_defaulted p =
     (ptype p = Some ''Player'' \<and>
      truthy_opt (health p) \<and>
      truthy_opt (stamina p) \<and>
      experience p \<noteq> None \<and> experience p \<noteq> Some NaN \<and>
      (case equipment p of None \<Rightarrow> False | Some e \<Rightarrow> e ''weapon'' \<noteq> None) \<and>
      inventory p \<noteq> None \<and>
      (case presence p of None \<Rightarrow> False | Some v \<Rightarrow> v \<noteq> []) \<and>
      effects p \<noteq> None \<and>
      wealth p \<noteq> None \<and> wealth p \<noteq> Some NaN)"

section \<open>Sample collaborators, services and states\<close>

text \<open>
  Concrete inputs on which the definitions are run: an \<open>Entity\<close> that exposes the data
  it was built from, a constant level and a blessing that changes nothing; the default
  configuration; a service whose channel \<open>idlerpg\<close> has the agent between two members;
  a state with two stored accounts; a state with two players serving a cooldown.
\<close>

definition sample_deps :: deps where
  "sample_deps =
     \<lparr>Entity = (\<lambda>d. d), level = (\<lambda>p. Num 1),
      Encounter = (\<lambda>p. \<lparr>etype = ''blessing'', entity = blank, monster = [], loot = Num 0,
                          found = [], equipped = False, skipped = False\<rparr>)\<rparr>"

definition no_overrides :: overrides where
  "no_overrides =
     \<lparr>o_name = None, o_alias = None, o_channels = None, o_interval = None, o_luck = None,
      o_PER_TICK_CAPITAL = None, o_PER_TICK_EXPERIENCE = None\<rparr>"

definition matrix :: service where
  "matrix =
     \<lparr>agent_id = ''@idlerpg:verse.im'',
      getMembers = (\<lambda>ch. if ch = ''idlerpg''
                          then Some [''@alice:verse.im'', ''@idlerpg:verse.im'', ''@bob:verse.im'']
                          else None),
      getPresence = (\<lambda>m. Some ''online'')\<rparr>"

definition lobby :: services where
  "lobby = [(''matrix'', matrix)]"

definition account :: "string \<Rightarrow> rat \<Rightarrow> player" where
  "account i w = blank\<lparr>pid := Some i, wealth := Some (Num w)\<rparr>"

definition bank :: state where
  "bank =
     \<lparr>players = [''local/users/alice'' \<mapsto> account ''local/users/alice'' 100,
                 ''local/users/bob'' \<mapsto> account ''local/users/bob'' 0],
      channels = [''idlerpg''], commits = 0, emitted = [], announced = [],
      rng = (\<lambda>n. 1 / 2), drawn = 0\<rparr>"

definition serving :: "string \<Rightarrow> string \<Rightarrow> player" where
  "serving i pres =
     blank\<lparr>pid := Some i, presence := Some pres, wealth := Some (Num 50),
           cooldown := Some (Num 1000)\<rparr>"

definition arena :: state where
  "arena =
     \<lparr>players = [''local/users/alice'' \<mapsto> serving ''local/users/alice'' ''online'',
                 ''local/users/bob'' \<mapsto> serving ''local/users/bob'' ''offline''],
      channels = [''idlerpg''], commits = 0, emitted = [], announced = [],
      rng = (\<lambda>n. 1 / 2), drawn = 0\<rparr>"

definition request :: "string \<Rightarrow> string \<Rightarrow> message" where
  "request a obj = \<lparr>actor = Str a, object = Str obj, origin = Some ''local''\<rparr>"

section \<open>Unfolding the definitions on concrete inputs\<close>

lemmas run_registry =
  getProfile_def canonical_def GET_def hydrate_def assign_def over_def or_else_def
  or_default_def blank_def registerPlayer_def register_key_def commit_def Let_def
  numeral_2_eq_2

lemmas run_parseInt =
  parseInt_def is_space_def digit_value_def digits_value_def trunc_def

section \<open>Frame properties of registration and enumeration\<close>

lemma registerPlayer_frame:
  "emitted (snd (registerPlayer s p)) = emitted s"
  "channels (snd (registerPlayer s p)) = channels s"
  by (auto simp: registerPlayer_def commit_def Let_def split: option.splits prod.splits)

lemma scan_members_frame:
  "emitted (snd (scan_members c sname svc ms s acc)) = emitted s \<and>
   channels (snd (scan_members c sname svc ms s acc)) = channels s"
proof (induction ms arbitrary: s acc)
  case Nil
  show ?case by simp
next
  case (Cons m ms)
  show ?case
  proof (cases "m = agent_id svc")
    case True
    then show ?thesis by simp
  next
    case False
    obtain r s' where reg:
      "registerPlayer s (getProfile c s (join ''/'' [sname, ''users'', m])) = (r, s')"
      by (cases "registerPlayer s (getProfile c s (join ''/'' [sname, ''users'', m]))")
    have fr: "emitted s' = emitted s" "channels s' = channels s"
      using registerPlayer_frame[of s "getProfile c s (join ''/'' [sname, ''users'', m])"] reg
      by simp_all
    show ?thesis
      using False reg fr Cons.IH[of s'] by (cases r) (simp_all add: Let_def del: join.simps)
  qed
qed

lemma scan_channels_frame:
  "emitted (snd (scan_channels c sname svc chs s acc)) = emitted s \<and>
   channels (snd (scan_channels c sname svc chs s acc)) = channels s"
proof (induction chs arbitrary: s acc)
  case Nil
  show ?case by simp
next
  case (Cons ch chs)
  obtain r s' where sm:
    "scan_members c sname svc (or_default (getMembers svc ch) []) s acc = (r, s')"
    by (cases "scan_members c sname svc (or_default (getMembers svc ch) []) s acc")
  have fr: "emitted s' = emitted s" "channels s' = channels s"
    using scan_members_frame[of c sname svc "or_default (getMembers svc ch) []" s acc] sm
    by simp_all
  show ?case using sm fr Cons.IH[of s'] by (cases r) simp_all
qed

lemma scan_services_frame:
  "emitted (snd (scan_services c svcs s acc)) = emitted s \<and>
   channels (snd (scan_services c svcs s acc)) = channels s"
proof (induction svcs arbitrary: s acc)
  case Nil
  show ?case by simp
next
  case (Cons x svcs)
  obtain sname svc where x: "x = (sname, svc)" by (cases x)
  obtain r s' where sc: "scan_channels c sname svc (channels s) s acc = (r, s')"
    by (cases "scan_channels c sname svc (channels s) s acc")
  have fr: "emitted s' = emitted s" "channels s' = channels s"
    using scan_channels_frame[of c sname svc "channels s" s acc] sc by simp_all
  show ?case using x sc fr Cons.IH[of s'] by (cases r) simp_all
qed

lemma getActivePlayers_emitted:
  "emitted (snd (getActivePlayers c cfg svcs s)) = emitted s"
proof -
  obtain r s' where g: "getPlayers c svcs s = (r, s')"
    by (cases "getPlayers c svcs s")
  have "emitted s' = emitted s"
    using scan_services_frame[of c svcs s "[]"] g by (simp add: getPlayers_def)
  with g show ?thesis by (cases r) (simp_all add: getActivePlayers_def)
qed

section \<open>The early return at the agent\<close>

lemma scan_members_agent:
  "agent_id svc \<in> set ms \<Longrightarrow> fst (scan_members c sname svc ms s acc) = None"
proof (induction ms arbitrary: s acc)
  case Nil
  then show ?case by simp
next
  case (Cons m ms)
  show ?case
  proof (cases "m = agent_id svc")
    case True
    then show ?thesis by simp
  next
    case False
    with Cons.prems have "agent_id svc \<in> set ms" by auto
    then show ?thesis using False Cons.IH
      by (simp add: Let_def split: prod.splits option.splits del: join.simps)
  qed
qed

lemma scan_channels_agent:
  "ch \<in> set chs \<Longrightarrow> getMembers svc ch = Some ms \<Longrightarrow> agent_id svc \<in> set ms \<Longrightarrow>
   fst (scan_channels c sname svc chs s acc) = None"
proof (induction chs arbitrary: s acc)
  case Nil
  then show ?case by simp
next
  case (Cons x chs)
  obtain r s' where sm:
    "scan_members c sname svc (or_default (getMembers svc x) []) s acc = (r, s')"
    by (cases "scan_members c sname svc (or_default (getMembers svc x) []) s acc")
  show ?case
  proof (cases "x = ch")
    case True
    with Cons.prems
    have "fst (scan_members c sname svc (or_default (getMembers svc x) []) s acc) = None"
      by (simp add: scan_members_agent or_default_def)
    with sm have "r = None" by simp
    with sm show ?thesis by simp
  next
    case False
    with Cons.prems have "ch \<in> set chs" by auto
    then have ih: "fst (scan_channels c sname svc chs s' acc') = None" for s' acc'
      using Cons.IH Cons.prems(2,3) by simp
    show ?thesis using sm ih by (cases r) simp_all
  qed
qed

lemma scan_services_agent:
  "(sname, svc) \<in> set svcs \<Longrightarrow> ch \<in> set (channels s) \<Longrightarrow>
   getMembers svc ch = Some ms \<Longrightarrow> agent_id svc \<in> set ms \<Longrightarrow>
   fst (scan_services c svcs s acc) = None"
proof (induction svcs arbitrary: s acc)
  case Nil
  then show ?case by simp
next
  case (Cons x svcs)
  obtain n v where x: "x = (n, v)" by (cases x)
  obtain r s' where sc: "scan_channels c n v (channels s) s acc = (r, s')"
    by (cases "scan_channels c n v (channels s) s acc")
  have ch': "channels s' = channels s"
    using scan_channels_frame[of c n v "channels s" s acc] sc by simp
  show ?case
  proof (cases "x = (sname, svc)")
    case True
    with x have "n = sname" "v = svc" by simp_all
    then have "fst (scan_channels c n v (channels s) s acc) = None"
      using Cons.prems scan_channels_agent by simp
    with sc x show ?thesis by simp
  next
    case False
    with Cons.prems have "(sname, svc) \<in> set svcs" by auto
    then have "fst (scan_services c svcs s' acc') = None" for acc'
      using Cons.IH[of s' acc'] Cons.prems ch' by simp
    with sc x show ?thesis by (cases r) simp_all
  qed
qed

text \<open>
  Claim C9. If the agent's own identity is among the members of a monitored channel, the
  enumeration returns from the whole function at that member instead of skipping it: it
  yields no player list at all, so every other member is missing from the enumeration,
  from the tick (which runs no round and only emits its signal) and from the online and
  member list answers (which throw on the missing list).
\<close>

theorem getPlayers_returns_nothing_at_agent:
  assumes "(sname, svc) \<in> set svcs" and "ch \<in> set (channels s)"
      and "getMembers svc ch = Some ms" and "agent_id svc \<in> set ms"
  shows "fst (getPlayers c svcs s) = None \<and>
         fst (getActivePlayers c cfg svcs s) = Inl TypeError \<and>
         fst (handleMemberlistRequest c svcs s) = Inl TypeError \<and>
         fst (handleOnlineRequest c cfg svcs s) = Inl TypeError \<and>
         tick c cfg svcs s = (Inr (), emit Tick (snd (getPlayers c svcs s)))"
proof -
  have n: "fst (getPlayers c svcs s) = None"
    using assms scan_services_agent by (simp add: getPlayers_def)
  then obtain s' where g: "getPlayers c svcs s = (None, s')"
    by (cases "getPlayers c svcs s") simp
  then show ?thesis
    by (simp add: getActivePlayers_def handleMemberlistRequest_def handleOnlineRequest_def tick_def)
qed

theorem getPlayers_returns_nothing_at_agent_witness:
  "(''matrix'', matrix) \<in> set lobby \<and>
   ''idlerpg'' \<in> set (channels bank) \<and>
   getMembers matrix ''idlerpg'' =
     Some [''@alice:verse.im'', ''@idlerpg:verse.im'', ''@bob:verse.im''] \<and>
   agent_id matrix \<in> set [''@alice:verse.im'', ''@idlerpg:verse.im'', ''@bob:verse.im''] \<and>
   fst (getPlayers sample_deps lobby bank) = None \<and>
   fst (getActivePlayers sample_deps (constructor no_overrides) lobby bank) = Inl TypeError \<and>
   fst (handleMemberlistRequest sample_deps lobby bank) = Inl TypeError \<and>
   fst (handleOnlineRequest sample_deps (constructor no_overrides) lobby bank) = Inl TypeError \<and>
   tick sample_deps (constructor no_overrides) lobby bank =
     (Inr (), emit Tick (snd (getPlayers sample_deps lobby bank)))"
proof -
  have h1: "(''matrix'', matrix) \<in> set lobby" by (simp add: lobby_def)
  have h2: "''idlerpg'' \<in> set (channels bank)" by (simp add: bank_def)
  have h3: "getMembers matrix ''idlerpg'' =
              Some [''@alice:verse.im'', ''@idlerpg:verse.im'', ''@bob:verse.im'']"
    by (simp add: matrix_def)
  have h4: "agent_id matrix \<in> set [''@alice:verse.im'', ''@idlerpg:verse.im'', ''@bob:verse.im'']"
    by (simp add: matrix_def)
  from getPlayers_returns_nothing_at_agent[OF h1 h2 h3 h4, of sample_deps "constructor no_overrides"]
       h1 h2 h3 h4
  show ?thesis by simp
qed

section \<open>Hydration\<close>

lemma or_else_truthy: "truthy d \<Longrightarrow> truthy (or_else v d)"
  by (simp add: or_else_def split: option.splits)

lemma or_else_number: "or_else v (Num d) \<noteq> NaN"
  by (cases v) (auto simp: or_else_def)

lemma hydrate_fully_defaulted: "fully_defaulted (hydrate d)"
  by (simp add: fully_defaulted_def hydrate_def or_else_truthy or_else_number
        split: option.splits)

text \<open>The profile never carries a cooldown, whatever is stored.\<close>

lemma getProfile_has_no_cooldown: "cooldown (getProfile c s i) = None"
  by (simp add: getProfile_def hydrate_def Let_def)

text \<open>
  Claim C4. Hydration is total and idempotent: for any partial profile stored under a
  player's path, \<open>getProfile\<close> called twice in a row yields two identical, fully
  defaulted profiles, \<open>equipment.weapon\<close> included. \<open>getProfile\<close> is defined for every
  id and every state and writes nothing, so a second call finds the same stored value;
  the result depends on the state only through that value.
\<close>

theorem getProfile_total_idempotent:
  assumes "players s' (canonical i) = players s (canonical i)"
  shows "getProfile c s' i = getProfile c s i \<and> fully_defaulted (getProfile c s i)"
  using assms by (simp add: getProfile_def GET_def Let_def hydrate_fully_defaulted)

theorem getProfile_total_idempotent_witness:
  "players (commit bank) (canonical ''alice'') = players bank (canonical ''alice'') \<and>
   getProfile sample_deps (commit bank) ''alice'' = getProfile sample_deps bank ''alice'' \<and>
   fully_defaulted (getProfile sample_deps bank ''alice'') \<and>
   health (getProfile sample_deps bank ''alice'') = Some (Num 100) \<and>
   wealth (getProfile sample_deps bank ''alice'') = Some (Num 100) \<and>
   presence (getProfile sample_deps bank ''alice'') = Some ''offline''"
proof -
  have same: "players (commit bank) (canonical ''alice'') = players bank (canonical ''alice'')"
    by (simp add: commit_def)
  have fields:
    "health (getProfile sample_deps bank ''alice'') = Some (Num 100) \<and>
     wealth (getProfile sample_deps bank ''alice'') = Some (Num 100) \<and>
     presence (getProfile sample_deps bank ''alice'') = Some ''offline''"
    by (simp add: run_registry sample_deps_def bank_def account_def)
  from getProfile_total_idempotent[OF same, of sample_deps] same fields
  show ?thesis by simp
qed

section \<open>A tick without players\<close>

text \<open>
  Claim C7. A tick during which the list of active players is empty, or getting it fails,
  completes without throwing and emits the \<open>tick\<close> signal exactly once: the signals
  after the tick are those before it followed by one \<open>Tick\<close>.
\<close>

theorem tick_without_active_players:
  assumes "fst (getActivePlayers c cfg svcs s) = Inr [] \<or>
           (\<exists>e. fst (getActivePlayers c cfg svcs s) = Inl e)"
  shows "fst (tick c cfg svcs s) = Inr () \<and>
         emitted (snd (tick c cfg svcs s)) = emitted s @ [Tick]"
proof -
  obtain r s1 where g: "getActivePlayers c cfg svcs s = (r, s1)"
    by (cases "getActivePlayers c cfg svcs s")
  from assms g have "(case r of Inl e \<Rightarrow> [] | Inr l \<Rightarrow> l) = []"
    by (auto split: sum.splits)
  then have t: "tick c cfg svcs s = (Inr (), emit Tick s1)"
    using g by (simp add: tick_def)
  have "emitted s1 = emitted s"
    using getActivePlayers_emitted[of c cfg svcs s] g by simp
  with t show ?thesis by (simp add: emit_def)
qed

theorem tick_without_active_players_witness:
  "fst (getActivePlayers sample_deps (constructor no_overrides) [] bank) = Inr [] \<and>
   fst (tick sample_deps (constructor no_overrides) [] bank) = Inr () \<and>
   emitted (snd (tick sample_deps (constructor no_overrides) [] bank)) = [Tick] \<and>
   fst (getActivePlayers sample_deps (constructor no_overrides) lobby bank) = Inl TypeError \<and>
   fst (tick sample_deps (constructor no_overrides) lobby bank) = Inr () \<and>
   emitted (snd (tick sample_deps (constructor no_overrides) lobby bank)) = [Tick]"
proof -
  have none: "fst (getActivePlayers sample_deps (constructor no_overrides) [] bank) = Inr []"
    by (simp add: getActivePlayers_def getPlayers_def)
  have fails: "fst (getActivePlayers sample_deps (constructor no_overrides) lobby bank) = Inl TypeError"
    by (simp add: getActivePlayers_def getPlayers_def lobby_def matrix_def bank_def or_default_def
          registerPlayer_def Let_def split: prod.splits option.splits)
  have e: "emitted bank = []" by (simp add: bank_def)
  from tick_without_active_players[of sample_deps "constructor no_overrides" "[]" bank]
       tick_without_active_players[of sample_deps "constructor no_overrides" lobby bank]
       none fails e
  show ?thesis by simp
qed

section \<open>Rewards\<close>

lemma rollForEncounter_ignores_amounts:
  "rollForEncounter c (cfg\<lparr>cfg_PER_TICK_CAPITAL := a, cfg_PER_TICK_EXPERIENCE := b\<rparr>) svcs s p =
   rollForEncounter c cfg svcs s p"
  by (simp add: rollForEncounter_def)

text \<open>
  Claim C10. For every configuration the reward adds exactly the module-level constants,
  10 wealth and 10 experience, to what the player has after the encounter step, whatever
  \<open>config.PER_TICK_CAPITAL\<close> and \<open>config.PER_TICK_EXPERIENCE\<close> are set to: with any
  values \<open>a\<close> and \<open>b\<close> for them the reward returns the same player and state as
  without.
\<close>

theorem reward_adds_module_constants:
  assumes "rollForEncounter c cfg svcs s p = (Inr instance, s1)"
      and "p1 = (case instance of None \<Rightarrow> p | Some i \<Rightarrow> assign p i)"
      and "pid p1 = Some k"
  shows "\<exists>p' s'. reward c (cfg\<lparr>cfg_PER_TICK_CAPITAL := a, cfg_PER_TICK_EXPERIENCE := b\<rparr>) svcs s p = (Inr p', s') \<and>
           reward c cfg svcs s p = (Inr p', s') \<and>
           wealth p' = Some (jadd (or_else (wealth p1) (Num 0)) (Num 10)) \<and>
           experience p' = Some (jadd (or_else (experience p1) (Num 0)) (Num 10)) \<and>
           players s' k = Some p'"
  using assms
  by (simp add: reward_def rollForEncounter_ignores_amounts Let_def PER_TICK_CAPITAL_def
        PER_TICK_EXPERIENCE_def commit_def)

theorem reward_adds_module_constants_witness:
  "\<exists>p' s'. reward sample_deps
              ((constructor no_overrides)\<lparr>cfg_PER_TICK_CAPITAL := Num 500,
                                           cfg_PER_TICK_EXPERIENCE := Num 500\<rparr>)
              lobby bank (account ''local/users/alice'' 100) = (Inr p', s') \<and>
           reward sample_deps (constructor no_overrides) lobby bank
             (account ''local/users/alice'' 100) = (Inr p', s') \<and>
           wealth p' = Some (Num 110) \<and> experience p' = Some (Num 10) \<and>
           players s' ''local/users/alice'' = Some p'"
proof -
  have roll: "rollForEncounter sample_deps (constructor no_overrides) lobby bank
                (account ''local/users/alice'' 100) = (Inr None, snd (random bank))"
    by (simp add: rollForEncounter_def random_def bank_def constructor_def no_overrides_def
          or_default_def ENCOUNTER_CHANCE_def)
  have same: "account ''local/users/alice'' 100 =
                (case None of None \<Rightarrow> account ''local/users/alice'' 100
                 | Some i \<Rightarrow> assign (account ''local/users/alice'' 100) i)"
    by simp
  have key: "pid (account ''local/users/alice'' 100) = Some ''local/users/alice''"
    by (simp add: account_def)
  from reward_adds_module_constants[OF roll same key, of "Num 500" "Num 500"]
  show ?thesis by (simp add: account_def blank_def or_else_def)
qed

section \<open>Penalties\<close>

text \<open>
  What \<open>penalize\<close> does to a player object whose id is a key of the store: cooldown
  1000 and half the wealth are written by one patch of two operations, one commit
  follows, and the announcement is decided on the cooldown the object carries on entry
  (absent, falsy or below 100).
\<close>

lemma penalize_on_stored_player:
  assumes "pid p = Some k" and "players s k = Some q" and "cooldown p \<noteq> Some NaN"
  shows "\<exists>s'. penalize svcs s p = (Inr (), s') \<and>
           players s' = (players s)(k \<mapsto> q\<lparr>cooldown := Some (Num 1000),
                                            wealth := Some (jmul (to_number (wealth p)) (Num (1 / 2)))\<rparr>) \<and>
           commits s' = commits s + 1 \<and>
           (if cooldown p = None \<or> (\<exists>x. cooldown p = Some (Num x) \<and> x < 100)
            then announced s' = announced s @ [Disrupted (name p)]
            else announced s' = announced s)"
proof -
  have n: "(\<not> truthy_opt (cooldown p) \<or> jlt (to_number (cooldown p)) (Num 100)) =
           (cooldown p = None \<or> (\<exists>x. cooldown p = Some (Num x) \<and> x < 100))"
  proof (cases "cooldown p")
    case None
    then show ?thesis by simp
  next
    case (Some v)
    with assms(3) obtain x where "v = Num x" by (cases v) auto
    with Some show ?thesis by auto
  qed
  show ?thesis
    unfolding penalize_def using assms(1,2) n
    by (simp add: Let_def commit_def announce_def fun_upd_twist)
qed

text \<open>
  The patch is not guarded and nothing registers the player first: for a player that is
  not stored, \<open>penalize\<close> throws before anything is written, committed or announced.
\<close>

lemma penalize_throws_when_not_stored:
  assumes "pid p = Some k" and "players s k = None"
  shows "penalize svcs s p = (Inl PatchError, s)"
  using assms by (simp add: penalize_def Let_def)

lemma handleMessage_throws_for_unregistered_author:
  "fst (handleMessage sample_deps lobby bank ''local/users/carol'' ''idlerpg'') = Inl PatchError \<and>
   players (snd (handleMessage sample_deps lobby bank ''local/users/carol'' ''idlerpg''))
     ''local/users/carol'' = None \<and>
   commits (snd (handleMessage sample_deps lobby bank ''local/users/carol'' ''idlerpg'')) = 0 \<and>
   emitted (snd (handleMessage sample_deps lobby bank ''local/users/carol'' ''idlerpg'')) = []"
  by (simp add: handleMessage_def penalize_def announce_def run_registry
        sample_deps_def lobby_def bank_def account_def)

text \<open>
  The message handler, the only caller, penalizes the profile it has just read, which
  carries no cooldown: for a stored author the \<open>message\<close> signals of the announcement
  are emitted whatever cooldown is stored.
\<close>

lemma handleMessage_emits_whatever_is_stored:
  assumes "t \<in> set (channels s)" and "pid (getProfile c s a) = Some k" and "players s k = Some q"
  shows "emitted (snd (handleMessage c svcs s a t)) =
           emitted s @
           concat (map (\<lambda>(sname, svc).
             map (\<lambda>ch. Message (Disrupted (name (getProfile c s a)))
                          (join ''/'' [sname, ''channels'', ch])) (channels s)) svcs)"
  using assms
  by (simp add: handleMessage_def penalize_def getProfile_has_no_cooldown Let_def
        commit_def announce_def del: join.simps)

text \<open>
  Claim C6. For every player, a penalty sets the cooldown to 1000 and halves the wealth
  by one patch of two operations followed by a commit, and the violation is announced if
  and only if the player's cooldown before it was below 100, an absent cooldown counting
  as below 100. The engine does not hold to the second half: a stored player who is
  serving a cooldown of 1000 and speaks in the monitored channel \<open>idlerpg\<close> is penalized
  (cooldown 1000, wealth 50 halved to 25) and the announcement is emitted to
  \<open>matrix/channels/idlerpg\<close> all the same.
\<close>

theorem handleMessage_announces_during_cooldown:
  "map_option cooldown (players arena ''local/users/bob'') = Some (Some (Num 1000)) \<and>
   fst (handleMessage sample_deps lobby arena ''local/users/bob'' ''idlerpg'') = Inr () \<and>
   emitted arena = [] \<and>
   emitted (snd (handleMessage sample_deps lobby arena ''local/users/bob'' ''idlerpg'')) =
     [Message (Disrupted None) ''matrix/channels/idlerpg''] \<and>
   map_option cooldown
     (players (snd (handleMessage sample_deps lobby arena ''local/users/bob'' ''idlerpg''))
        ''local/users/bob'') = Some (Some (Num 1000)) \<and>
   map_option wealth
     (players (snd (handleMessage sample_deps lobby arena ''local/users/bob'' ''idlerpg''))
        ''local/users/bob'') = Some (Some (Num 25))"
  by (simp add: handleMessage_def penalize_def announce_def run_registry
        sample_deps_def lobby_def arena_def serving_def)

section \<open>Rounds and the cooldown\<close>

text \<open>
  Claim C5. The round is to lower each active player's cooldown by the configured
  per-tick capital, not below 0, keeping the stored cooldown within 0 to 1000. Run on a
  stored online player with cooldown 1000 and the default configuration, the round leaves
  no cooldown at all in the store (the reward writes back the profile, which never has
  one) where 990 is expected; run on an offline player it leaves the 1000 as it is.
\<close>

theorem computeRound_leaves_cooldown_unrelaxed:
  "map_option cooldown (players arena ''local/users/alice'') = Some (Some (Num 1000)) \<and>
   map_option cooldown
     (players (snd (computeRound sample_deps (constructor no_overrides) lobby arena
                      (serving ''local/users/alice'' ''online''))) ''local/users/alice'')
     = Some None \<and>
   map_option cooldown
     (players (snd (computeRound sample_deps (constructor no_overrides) lobby arena
                      (serving ''local/users/bob'' ''offline''))) ''local/users/bob'')
     = Some (Some (Num 1000))"
  by (simp add: computeRound_def reward_def rollForEncounter_def random_def run_registry
        sample_deps_def no_overrides_def constructor_def arena_def serving_def
        ENCOUNTER_CHANCE_def PER_TICK_CAPITAL_def PER_TICK_EXPERIENCE_def)

text \<open>The configured per-tick capital has no influence on a round at all.\<close>

lemma reward_ignores_amounts:
  "reward c (cfg\<lparr>cfg_PER_TICK_CAPITAL := a\<rparr>) svcs s p = reward c cfg svcs s p"
  by (simp add: reward_def rollForEncounter_def)

lemma computeRound_ignores_per_tick_capital:
  "computeRound c (cfg\<lparr>cfg_PER_TICK_CAPITAL := a\<rparr>) svcs s p = computeRound c cfg svcs s p"
  by (cases "pid p")
     (simp_all add: computeRound_def getProfile_has_no_cooldown reward_ignores_amounts Let_def)

section \<open>What the transfer handler does\<close>

text \<open>
  A request that is answered with anything but the success message or the report of a
  failed patch leaves the state as it was, and so does one that throws.
\<close>

lemma transfer_rejection_changes_nothing:
  assumes "handleTransferRequest c s m = (r, s')"
      and "r \<noteq> Inr Transferred" and "r \<noteq> Inr CouldNotComplete"
  shows "s' = s"
  using assms unfolding handleTransferRequest_def Let_def
  by (auto split: if_splits jsval.splits option.splits prod.splits)

text \<open>
  With whole, non-negative wealths, an amount token that parses to a whole amount between
  0 and the actor's wealth, and two distinct players stored under their own ids, the
  transfer goes through, moves exactly the amount, and leaves both balances non-negative
  (a statement about the model, which follows JavaScript for amounts and wealths below
  \<open>2^53\<close>).
\<close>

lemma transfer_conserves_whole_amounts:
  assumes parts: "split_on (CHR '' '') obj = [cmd, amt, who]"
      and other: "nth_opt (split_on (CHR ''/'') act) 2 \<noteq> Some who"
      and act: "act \<noteq> []"
      and A: "getProfile c s act = A" and B: "getProfile c s (oname @ ''/users/'' @ who) = B"
      and ka: "pid A = Some ka" "register_key ka = ka" "ka \<noteq> []"
      and kb: "pid B = Some kb" "register_key kb = kb" "kb \<noteq> []"
      and distinct: "ka \<noteq> kb"
      and wa: "wealth A = Some (Num (of_int a))" and wb: "wealth B = Some (Num (of_int b))"
      and amount: "parseInt amt = Num (of_int n)"
      and range: "0 \<le> n" "n \<le> a" "0 < a" "0 \<le> b"
  shows "\<exists>s'. handleTransferRequest c s \<lparr>actor = Str act, object = Str obj, origin = Some oname\<rparr>
                = (Inr Transferred, s') \<and>
              map_option wealth (players s' ka) = Some (Some (Num (of_int (a - n)))) \<and>
              map_option wealth (players s' kb) = Some (Some (Num (of_int (b + n)))) \<and>
              0 \<le> a - n \<and> 0 \<le> b + n \<and> (a - n) + (b + n) = a + b"
proof -
  have obj: "obj \<noteq> []" using parts by auto
  have t: "trunc (of_int x) = x" for x by (simp add: trunc_def)
  have t2: "trunc (of_int x - of_int y) = x - y" for x y
    using t[of "x - y"] by simp
  show ?thesis
    using assms obj
    by (simp add: handleTransferRequest_def registerPlayer_def commit_def emit_def Let_def
          numeral_2_eq_2 t t2 GET_def)
qed

text \<open>
  Claim C1. Every transfer that is answered with the success message keeps the sum of the
  two wealths and leaves neither negative. The handler does not hold to this for a
  negative amount: \<open>!transfer -30 bob\<close> from an actor with wealth 100 to a target with
  wealth 0 is answered with the success message, and leaves the actor with 130 and the
  target with \<open>-30\<close>.
\<close>

theorem transfer_negative_amount_overdraws_target:
  "fst (handleTransferRequest sample_deps bank
          (request ''local/users/alice'' ''!transfer -30 bob'')) = Inr Transferred \<and>
   map_option wealth (players bank ''local/users/bob'') = Some (Some (Num 0)) \<and>
   map_option wealth
     (players (snd (handleTransferRequest sample_deps bank
                      (request ''local/users/alice'' ''!transfer -30 bob''))) ''local/users/alice'')
     = Some (Some (Num 130)) \<and>
   map_option wealth
     (players (snd (handleTransferRequest sample_deps bank
                      (request ''local/users/alice'' ''!transfer -30 bob''))) ''local/users/bob'')
     = Some (Some (Num (- 30)))"
  by (simp add: handleTransferRequest_def emit_def run_registry run_parseInt
        sample_deps_def bank_def account_def request_def)

text \<open>
  Claim C2. A request whose amount token does not parse as an integer is rejected and
  changes nothing. The handler does not hold to this: \<open>!transfer abc bob\<close> from an
  actor with wealth 100 is answered with the success message after three commits, and
  both stored wealths are \<open>NaN\<close> afterwards.
\<close>

theorem transfer_non_numeric_amount_is_carried_out:
  "parseInt ''abc'' = NaN \<and>
   fst (handleTransferRequest sample_deps bank
          (request ''local/users/alice'' ''!transfer abc bob'')) = Inr Transferred \<and>
   map_option wealth
     (players (snd (handleTransferRequest sample_deps bank
                      (request ''local/users/alice'' ''!transfer abc bob''))) ''local/users/alice'')
     = Some (Some NaN) \<and>
   map_option wealth
     (players (snd (handleTransferRequest sample_deps bank
                      (request ''local/users/alice'' ''!transfer abc bob''))) ''local/users/bob'')
     = Some (Some NaN) \<and>
   commits (snd (handleTransferRequest sample_deps bank
                   (request ''local/users/alice'' ''!transfer abc bob''))) = commits bank + 3"
  by (simp add: handleTransferRequest_def emit_def run_registry run_parseInt
        sample_deps_def bank_def account_def request_def)

text \<open>
  The handler compares the third segment of the actor's id with the target token, which
  catches a transfer to oneself when the actor is named by a full id.
\<close>

lemma transfer_to_self_rejected_by_full_id:
  assumes "split_on (CHR '' '') obj = [cmd, amt, who]"
      and "nth_opt (split_on (CHR ''/'') act) 2 = Some who" and "act \<noteq> []"
  shows "handleTransferRequest c s \<lparr>actor = Str act, object = Str obj, origin = og\<rparr>
           = (Inr ToYourself, s)"
proof -
  have "obj \<noteq> []" using assms(1) by auto
  then show ?thesis using assms
    by (simp add: handleTransferRequest_def numeral_2_eq_2)
qed

text \<open>
  Claim C3. A request in which actor and target are the same player is rejected before any
  registration, patch or commit. The handler does not hold to this for an actor named by
  a one-segment id, which has no third segment to compare, although the registry reads
  \<open>alice\<close> and \<open>local/users/alice\<close> as the same player: from actor \<open>alice\<close> with
  origin \<open>local\<close>, \<open>!transfer 10 alice\<close> is answered with the success message after
  three commits, and the player's wealth has grown from 100 to 110.
\<close>

theorem transfer_to_self_by_short_id_is_carried_out:
  "canonical ''alice'' = canonical ''local/users/alice'' \<and>
   fst (handleTransferRequest sample_deps bank
          (request ''alice'' ''!transfer 10 alice'')) = Inr Transferred \<and>
   map_option wealth (players bank ''local/users/alice'') = Some (Some (Num 100)) \<and>
   map_option wealth
     (players (snd (handleTransferRequest sample_deps bank
                      (request ''alice'' ''!transfer 10 alice''))) ''local/users/alice'')
     = Some (Some (Num 110)) \<and>
   commits (snd (handleTransferRequest sample_deps bank
                   (request ''alice'' ''!transfer 10 alice''))) = commits bank + 3"
  by (simp add: handleTransferRequest_def emit_def run_registry run_parseInt
        sample_deps_def bank_def account_def request_def)

end
